theory Spec2Isabelle
  imports
    Complex_Main
    "HOL-Library.Sublist"
    "HOL-Library.Product_Lexorder"
    "HOL-Library.List_Lexorder"
    "HOL-Library.Char_ord"
begin

section \<open>Numbers, strings and dates\<close>

text \<open>
  Amounts are Python floats in the source. The model computes with exact rationals, so
  every statement below is about the arithmetic the code asks for, without the binary
  representation error of a float. \<open>round(x, nd)\<close> rounds to \<open>nd\<close> decimals, a tie
  going to the even neighbour.
\<close>

definition round_half_even :: "rat \<Rightarrow> int" where
  "round_half_even x =
     (let n = \<lfloor>x\<rfloor>; f = x - of_int n
      in if f < 1 / 2 then n else if 1 / 2 < f then n + 1 else if even n then n else n + 1)"

definition py_round :: "rat \<Rightarrow> nat \<Rightarrow> rat" where
  "py_round x nd = of_int (round_half_even (x * 10 ^ nd)) / 10 ^ nd"

text \<open>
  A Python \<open>str\<close> is modelled by its UTF-8 bytes. \<open>str(None)\<close> is the text \<open>None\<close>;
  \<open>lower\<close> maps the ASCII capitals, \<open>isspace\<close> is the ASCII white space, and
  \<open>kw in text\<close> is the contiguous-sublist test.
\<close>

definition str_opt :: "string option \<Rightarrow> string" where
  "str_opt v = (case v of None \<Rightarrow> ''None'' | Some s \<Rightarrow> s)"

definition lower_char :: "char \<Rightarrow> char" where
  "lower_char c =
     (if CHR ''A'' \<le> c \<and> c \<le> CHR ''Z'' then char_of (of_char c + (32::nat)) else c)"

definition lower :: "string \<Rightarrow> string" where
  "lower s = map lower_char s"

definition isspace :: "char \<Rightarrow> bool" where
  "isspace c = (let n = (of_char c :: nat) in (9 \<le> n \<and> n \<le> 13) \<or> (28 \<le> n \<and> n \<le> 32))"

definition strip :: "string \<Rightarrow> string" where
  "strip s = rev (dropWhile isspace (rev (dropWhile isspace s)))"

definition contains :: "string \<Rightarrow> string \<Rightarrow> bool" where
  "contains text kw = sublist kw text"

definition digit_char :: "nat \<Rightarrow> char" where
  "digit_char d = char_of (48 + d mod 10)"

fun str_nat :: "nat \<Rightarrow> string" where
  "str_nat n = (if n < 10 then [digit_char n] else str_nat (n div 10) @ [digit_char (n mod 10)])"

declare str_nat.simps [simp del]

definition zfill :: "nat \<Rightarrow> string \<Rightarrow> string" where
  "zfill w s = replicate (w - length s) (CHR ''0'') @ s"

text \<open>
  A calendar date is (year, month, day); the lexicographic order of the triple is the
  chronological order. A timestamp is a date with the seconds since midnight.
  \<open>str(date)\<close> is the ISO form, \<open>to_period("M").astype(str)\<close> is \<open>YYYY-MM\<close>.
\<close>

type_synonym date = "nat \<times> nat \<times> nat"

type_synonym datetime = "date \<times> nat"

definition dt_date :: "datetime \<Rightarrow> date" where
  "dt_date ts = fst ts"

definition str_date :: "date \<Rightarrow> string" where
  "str_date d =
     (case d of (y, m, dd) \<Rightarrow>
        zfill 4 (str_nat y) @ ''-'' @ zfill 2 (str_nat m) @ ''-'' @ zfill 2 (str_nat dd))"

definition to_period_M :: "datetime \<Rightarrow> string" where
  "to_period_M ts =
     (case dt_date ts of (y, m, dd) \<Rightarrow> zfill 4 (str_nat y) @ ''-'' @ zfill 2 (str_nat m))"

section \<open>Transactions and data frames\<close>

text \<open>
  One row of the transactions frame. \<open>category\<close>, \<open>description\<close>, \<open>source\<close> and
  \<open>account_name\<close> are nullable. \<open>period\<close> is the cell of the derived \<open>period\<close> column.
  A frame is its list of column names with its rows; a cell of a column that the frame
  does not have is never read.
\<close>

record txn =
  timestamp :: datetime
  amount :: rat
  is_income :: bool
  category :: "string option"
  description :: "string option"
  source :: "string option"
  account_name :: "string option"
  period :: string

record frame =
  columns :: "string list"
  rows :: "txn list"

definition has_column :: "frame \<Rightarrow> string \<Rightarrow> bool" where
  "has_column df c = (c \<in> set (columns df))"

definition amount_sum :: "txn list \<Rightarrow> rat" where
  "amount_sum rs = sum_list (map amount rs)"

definition expenses :: "txn list \<Rightarrow> txn list" where
  "expenses rs = filter (\<lambda>t. \<not> is_income t) rs"

text \<open>
  \<open>groupby(key)["amount"].sum()\<close>: one entry per distinct key, keys ascending.
  pandas drops the rows whose key is null (\<open>dropna=True\<close> is the default), which is
  \<open>groupby_sum_dropna\<close>.
\<close>

definition groupby_sum :: "(txn \<Rightarrow> 'k::linorder) \<Rightarrow> txn list \<Rightarrow> ('k \<times> rat) list" where
  "groupby_sum key rs =
     map (\<lambda>k. (k, amount_sum (filter (\<lambda>t. key t = k) rs))) (sort (remdups (map key rs)))"

definition groupby_sum_dropna ::
  "(txn \<Rightarrow> 'k::linorder option) \<Rightarrow> txn list \<Rightarrow> ('k \<times> rat) list" where
  "groupby_sum_dropna key rs =
     groupby_sum (\<lambda>t. the (key t)) (filter (\<lambda>t. key t \<noteq> None) rs)"

section \<open>Stats Engine: \<open>compute_basic_stats\<close>\<close>

record stats =
  total_income :: rat
  total_expense :: rat
  net :: rat
  savings_rate :: rat

text \<open>The locals \<open>income\<close>, \<open>expense\<close>, \<open>net\<close>, \<open>savings_rate\<close> of lines 14 to 17.\<close>

definition stats_exact :: "frame \<Rightarrow> stats" where
  "stats_exact df =
     (let income = amount_sum (filter is_income (rows df));
          expense = amount_sum (expenses (rows df));
          net = income - expense;
          savings_rate = (if income > 0 then net / income else 0)
      in \<lparr>total_income = income, total_expense = expense, net = net,
          savings_rate = savings_rate\<rparr>)"

text \<open>The returned dictionary of lines 19 to 24: the locals, rounded.\<close>

definition compute_basic_stats :: "frame \<Rightarrow> stats" where
  "compute_basic_stats df =
     (let s = stats_exact df
      in \<lparr>total_income = py_round (total_income s) 2,
          total_expense = py_round (total_expense s) 2,
          net = py_round (net s) 2,
          savings_rate = py_round (savings_rate s) 3\<rparr>)"

section \<open>Pattern Detector: \<open>detect_patterns\<close>\<close>

record count_total =
  count :: nat
  total_sum :: rat

record spikes =
  days :: "string list"
  extra_spend :: rat

record patterns =
  high_fees :: count_total
  impulse_spikes :: spikes
  subscriptions :: count_total
  cashflow_flag :: string

text \<open>\<open>Series.median()\<close> of a non-empty series.\<close>

definition median :: "rat list \<Rightarrow> rat" where
  "median xs =
     (let s = sort xs; n = length s
      in if odd n then s ! (n div 2) else (s ! (n div 2 - 1) + s ! (n div 2)) / 2)"

definition text_of :: "txn \<Rightarrow> string" where
  "text_of t = lower (str_opt (description t))"

definition fees_mask :: "txn \<Rightarrow> bool" where
  "fees_mask t =
     ((contains (text_of t) ''fee'' \<or> contains (text_of t) ''charge''
       \<or> contains (text_of t) ''penalty'' \<or> contains (text_of t) ''fine''
       \<or> contains (text_of t) ''interest'') \<and> \<not> is_income t)"

text \<open>\<open>df.get("category", pd.Series([None] * len(df)))\<close>, then \<open>astype(str).str.lower()\<close>.\<close>

definition cat_str :: "frame \<Rightarrow> txn \<Rightarrow> string" where
  "cat_str df t = lower (str_opt (if has_column df ''category'' then category t else None))"

definition subs_mask :: "frame \<Rightarrow> txn \<Rightarrow> bool" where
  "subs_mask df t =
     ((cat_str df t = ''subscriptions'' \<or> contains (text_of t) ''subscription'')
      \<and> \<not> is_income t)"

text \<open>
  Lines 72 to 88: the daily totals of the expense rows, their median, the days above
  1.5 times the median. The result is the pair of locals (\<open>impulse_days\<close>, \<open>extra_spend\<close>).
\<close>

definition daily_totals :: "frame \<Rightarrow> (date \<times> rat) list" where
  "daily_totals df = groupby_sum (\<lambda>t. dt_date (timestamp t)) (expenses (rows df))"

definition median_daily :: "frame \<Rightarrow> rat" where
  "median_daily df =
     (if length (daily_totals df) > 0 then median (map snd (daily_totals df)) else 0)"

definition high_days :: "frame \<Rightarrow> (date \<times> rat) list" where
  "high_days df = filter (\<lambda>(d, v). v > (3 / 2) * median_daily df) (daily_totals df)"

definition impulse :: "frame \<Rightarrow> string list \<times> rat" where
  "impulse df =
     (if expenses (rows df) \<noteq> [] then
        (if median_daily df > 0 then
           (map (\<lambda>(d, v). str_date d) (high_days df),
            sum_list (map (\<lambda>(d, v). v - median_daily df) (high_days df)))
         else ([], 0))
      else ([], 0))"

definition detect_patterns :: "frame \<Rightarrow> patterns" where
  "detect_patterns df =
     (let fees_total = amount_sum (filter fees_mask (rows df));
          fees_count = length (filter fees_mask (rows df));
          (impulse_days, extra) = impulse df;
          subs_total = amount_sum (filter (subs_mask df) (rows df));
          subs_count = length (filter (subs_mask df) (rows df));
          st = compute_basic_stats df;
          flag = (if net st < 0 then ''critical''
                  else if savings_rate st < 1 / 10 then ''warning''
                  else ''ok'')
      in \<lparr>high_fees = \<lparr>count = fees_count, total_sum = py_round fees_total 2\<rparr>,
          impulse_spikes = \<lparr>days = impulse_days, extra_spend = py_round extra 2\<rparr>,
          subscriptions = \<lparr>count = subs_count, total_sum = py_round subs_total 2\<rparr>,
          cashflow_flag = flag\<rparr>)"

section \<open>Category Resolver: \<open>guess_category\<close> and \<open>apply_auto_categories_to_df\<close>\<close>

text \<open>The keyword table, in declaration order (a Python dict iterates in that order).\<close>

definition KEYWORD_CATEGORY_MAP :: "(string \<times> string) list" where
  "KEYWORD_CATEGORY_MAP =
     [(''zomato'', ''Food''), (''swiggy'', ''Food''), (''blinkit'', ''Food''),
      (''instamart'', ''Food''), (''bigbasket'', ''Food''), (''starbucks'', ''Food''),
      (''cafe'', ''Food''), (''restaurant'', ''Food''), (''uber'', ''Transport''),
      (''ola'', ''Transport''), (''rapido'', ''Transport''), (''metro'', ''Transport''),
      (''cab'', ''Transport''), (''fuel'', ''Transport''), (''petrol'', ''Transport''),
      (''diesel'', ''Transport''), (''netflix'', ''Subscriptions''),
      (''spotify'', ''Subscriptions''), (''hotstar'', ''Subscriptions''),
      (''disney'', ''Subscriptions''), (''prime'', ''Subscriptions''),
      (''youtube'', ''Subscriptions''), (''apple music'', ''Subscriptions''),
      (''amazon'', ''Shopping''), (''flipkart'', ''Shopping''), (''myntra'', ''Shopping''),
      (''ajio'', ''Shopping''), (''h&m'', ''Shopping''), (''zara'', ''Shopping''),
      (''nykaa'', ''Shopping''), (''rent'', ''Housing''), (''landlord'', ''Housing''),
      (''maintenance'', ''Housing''), (''society'', ''Housing''), (''salary'', ''Salary''),
      (''salaried'', ''Salary''), (''stipend'', ''Salary''),
      (''freelance'', ''Side Income''), (''consulting'', ''Side Income''),
      (''bonus'', ''Bonus''), (''fee'', ''Fees & Charges''),
      (''charges'', ''Fees & Charges''), (''penalty'', ''Fees & Charges''),
      (''fine'', ''Fees & Charges''), (''interest'', ''Fees & Charges'')]"

fun join :: "string \<Rightarrow> string list \<Rightarrow> string" where
  "join sep [] = []"
| "join sep [p] = p"
| "join sep (p # q # ps) = p @ sep @ join sep (q # ps)"

text \<open>Lines 79 to 83: the lower-cased parts that are not None, joined by one space.\<close>

definition search_text :: "string \<Rightarrow> string option \<Rightarrow> string option \<Rightarrow> string" where
  "search_text descr src acct =
     join '' '' (map lower (List.map_filter id [Some descr, src, acct]))"

definition guess_category :: "string \<Rightarrow> string option \<Rightarrow> string option \<Rightarrow> string option" where
  "guess_category descr src acct =
     map_option snd
       (find (\<lambda>(keyword, cat). contains (search_text descr src acct) keyword)
          KEYWORD_CATEGORY_MAP)"

text \<open>
  \<open>row.get(c)\<close> is None when the frame has no column \<open>c\<close>; \<open>row.get("description", "")\<close>
  is the empty text then, and \<open>str\<close> of the cell otherwise.
\<close>

definition row_get :: "frame \<Rightarrow> string \<Rightarrow> (txn \<Rightarrow> string option) \<Rightarrow> txn \<Rightarrow> string option" where
  "row_get df c cell t = (if has_column df c then cell t else None)"

definition row_description :: "frame \<Rightarrow> txn \<Rightarrow> string" where
  "row_description df t =
     (if has_column df ''description'' then str_opt (description t) else [])"


text \<open>\<open>mask_missing\<close> (line 103) on one cell: null, or blank once stripped.\<close>

definition mask_missing :: "string option \<Rightarrow> bool" where
  "mask_missing c = (c = None \<or> strip (str_opt c) = [])"

definition categorise_row :: "frame \<Rightarrow> txn \<Rightarrow> string option" where
  "categorise_row df t =
     (case guess_category (row_description df t) (row_get df ''source'' source t)
             (row_get df ''account_name'' account_name t) of
        Some cat \<Rightarrow> Some cat
      | None \<Rightarrow> row_get df ''category'' category t)"

text \<open>
  Lines 98 and 99 run on the caller's frame, before the copy of line 101: a frame
  without a \<open>category\<close> column gets one, filled with None.
\<close>

definition add_category_column :: "frame \<Rightarrow> frame" where
  "add_category_column df =
     (if \<not> has_column df ''category''
      then \<lparr>columns = columns df @ [''category''],
            rows = map (\<lambda>t. t\<lparr>category := None\<rparr>) (rows df)\<rparr>
      else df)"

text \<open>
  The function returns a new frame and may have changed its argument: the result is the
  pair (the caller's frame after the call, the returned frame).
\<close>

definition apply_auto_categories_to_df :: "frame \<Rightarrow> frame \<times> frame" where
  "apply_auto_categories_to_df df =
     (let caller = add_category_column df;
          copy = caller;
          out = copy\<lparr>rows :=
                  map (\<lambda>t. if mask_missing (category t)
                            then t\<lparr>category := categorise_row copy t\<rparr> else t)
                    (rows copy)\<rparr>
      in (caller, out))"

section \<open>Examples of frames\<close>

definition all_columns :: "string list" where
  "all_columns = [''timestamp'', ''amount'', ''is_income'', ''category'', ''description'',
                  ''source'', ''account_name'']"

definition mk_txn :: "date \<Rightarrow> rat \<Rightarrow> bool \<Rightarrow> string option \<Rightarrow> string option \<Rightarrow> txn" where
  "mk_txn d a inc c descr =
     \<lparr>timestamp = (d, 0), amount = a, is_income = inc, category = c, description = descr,
      source = None, account_name = None, period = []\<rparr>"

text \<open>A month with a salary of 1000 and one expense of 1050 for rent.\<close>

definition overspent :: frame where
  "overspent =
     \<lparr>columns = all_columns,
      rows = [mk_txn (2025, 1, 1) 1000 True (Some ''Salary'') (Some ''salary''),
              mk_txn (2025, 1, 2) 1050 False (Some ''Housing'') (Some ''rent'')]\<rparr>"

text \<open>A month with expenses only.\<close>

definition no_income :: frame where
  "no_income =
     \<lparr>columns = all_columns,
      rows = [mk_txn (2025, 1, 2) 40 False (Some ''Food'') (Some ''cafe'')]\<rparr>"


text \<open>A frame that has no \<open>category\<close> column.\<close>

definition no_category_column :: frame where
  "no_category_column =
     \<lparr>columns = [''timestamp'', ''amount'', ''is_income'', ''description''],
      rows = [mk_txn (2025, 1, 2) 40 False None (Some ''cafe'')]\<rparr>"

section \<open>Category Breakdown: \<open>compute_category_breakdown\<close>\<close>

record entry =
  entry_category :: string
  total_spend :: rat

text \<open>
  \<open>sort_values(ascending=False)\<close>. The order among equal totals is not fixed by pandas
  (its default sort is not stable); the model keeps the first-met order.
\<close>

definition sort_values_desc :: "('k \<times> rat) list \<Rightarrow> ('k \<times> rat) list" where
  "sort_values_desc xs = sort_key (\<lambda>(k, v). - v) xs"

definition compute_category_breakdown :: "frame \<Rightarrow> entry list" where
  "compute_category_breakdown df =
     (if \<not> has_column df ''category'' then []
      else if expenses (rows df) = [] then []
      else map (\<lambda>(cat, amount). \<lparr>entry_category = cat, total_spend = py_round amount 2\<rparr>)
             (sort_values_desc (groupby_sum_dropna category (expenses (rows df)))))"

text \<open>An amount with at most two decimals.\<close>

definition whole_cents :: "rat \<Rightarrow> bool" where
  "whole_cents x = (of_int \<lfloor>x * 100\<rfloor> = x * 100)"

text \<open>
  A salary and one expense that no keyword resolves; two expenses with a third decimal;
  a month with two categories and one uncategorised expense.
\<close>

definition uncategorised :: frame where
  "uncategorised =
     \<lparr>columns = all_columns,
      rows = [mk_txn (2025, 1, 1) 1000 True (Some ''Salary'') (Some ''salary''),
              mk_txn (2025, 1, 5) 75 False None (Some ''corner shop'')]\<rparr>"

definition sub_cent :: frame where
  "sub_cent =
     \<lparr>columns = all_columns,
      rows = [mk_txn (2025, 1, 5) (10004 / 1000) False (Some ''Food'') (Some ''cafe''),
              mk_txn (2025, 1, 6) (20004 / 1000) False (Some ''Housing'') (Some ''rent'')]\<rparr>"

definition two_categories :: frame where
  "two_categories =
     \<lparr>columns = all_columns,
      rows = [mk_txn (2025, 1, 1) 1000 True (Some ''Salary'') (Some ''salary''),
              mk_txn (2025, 1, 5) (1050 / 100) False (Some ''Food'') (Some ''cafe''),
              mk_txn (2025, 1, 6) 400 False (Some ''Housing'') (Some ''rent''),
              mk_txn (2025, 1, 7) (725 / 100) False (Some ''Food'') (Some ''zomato''),
              mk_txn (2025, 1, 8) 30 False None (Some ''corner shop'')]\<rparr>"

section \<open>Action Recommender: \<open>recommend_actions_for_next_month\<close>\<close>

text \<open>
  The format \<open>{x:,.0f}\<close>: no decimals, a comma between groups of three digits. The
  rupee sign, the dashes and the apostrophe of the texts are their UTF-8 bytes.
\<close>

fun commas :: "string \<Rightarrow> string" where
  "commas s =
     (if length s \<le> 3 then s
      else commas (take (length s - 3) s) @ '','' @ drop (length s - 3) s)"

declare commas.simps [simp del]

definition fmt_0f :: "rat \<Rightarrow> string" where
  "fmt_0f x = (if x < 0 then ''-'' else []) @ commas (str_nat (nat \<bar>round_half_even x\<bar>))"

definition rupee :: string where
  "rupee = [CHR 0xE2, CHR 0x82, CHR 0xB9]"

definition en_dash :: string where
  "en_dash = [CHR 0xE2, CHR 0x80, CHR 0x93]"

definition em_dash :: string where
  "em_dash = [CHR 0xE2, CHR 0x80, CHR 0x94]"

definition apostrophe :: string where
  "apostrophe = [CHR 0xE2, CHR 0x80, CHR 0x99]"

definition action_automatic_transfer :: string where
  "action_automatic_transfer =
     ''Set up an automatic transfer of at least 10% of your income into a separate ''
     @ ''savings or investment account at the start of the month.''"

definition action_increase_savings :: string where
  "action_increase_savings =
     ''If it feels comfortable, increase your monthly savings by 5'' @ en_dash
     @ ''10% of your income by slightly trimming non-essential spends.''"

definition action_protect_rate :: string where
  "action_protect_rate =
     ''Your savings rate is strong. Protect it by keeping fixed essentials and ''
     @ ''recurring commitments stable.''"

definition action_fees :: "nat \<Rightarrow> rat \<Rightarrow> string" where
  "action_fees fees_count fees_total =
     ''Open your statement and identify the '' @ str_nat fees_count
     @ '' fee/charge transaction(s) (~'' @ rupee @ fmt_0f fees_total
     @ ''). Decide which ones you can avoid next month ''
     @ ''(late fees, ATM fees, convenience charges).''"

definition action_spike :: "string \<Rightarrow> rat \<Rightarrow> string" where
  "action_spike day extra =
     ''Pick one of the high-spend days from this month (e.g., '' @ day
     @ ''). Plan in advance how you'' @ [CHR 0x27]
     @ ''ll handle a similar day next month to avoid the extra ~'' @ rupee @ fmt_0f extra
     @ '' spend.''"

definition action_subscriptions :: "rat \<Rightarrow> string" where
  "action_subscriptions subs_total =
     ''Do a 10-minute subscription audit. Keep what you use weekly and pause or cancel ''
     @ ''the rest to reclaim part of the ~'' @ rupee @ fmt_0f subs_total
     @ '' you spent this month.''"

definition action_top_category :: "string \<Rightarrow> string" where
  "action_top_category cat =
     ''Choose one simple rule to soften '' @ cat @ '' spends next month'' @ em_dash
     @ ''for example, one fewer order or a fixed monthly cap.''"

definition action_review :: string where
  "action_review =
     ''Block 30 minutes on your calendar to review this month'' @ apostrophe
     @ ''s spending and write down 1'' @ en_dash
     @ ''2 habits you want to change. Treat it like a personal retro, not punishment.''"

text \<open>The loop of lines 72 to 77, with \<open>seen\<close> and \<open>deduped\<close> as it runs.\<close>

fun dedupe :: "string set \<Rightarrow> string list \<Rightarrow> string list \<Rightarrow> string list" where
  "dedupe seen deduped [] = deduped"
| "dedupe seen deduped (a # as) =
     (if a \<notin> seen then dedupe (insert a seen) (deduped @ [a]) as
      else dedupe seen deduped as)"

text \<open>
  The arguments are the dictionaries that \<open>compute_basic_stats\<close>,
  \<open>compute_category_breakdown\<close> and \<open>detect_patterns\<close> return, so every key that the
  function reads with \<open>get\<close> is present. \<open>actions_1_to_5\<close> is the list before the filler
  (lines 25 to 63).
\<close>

definition actions_1_to_5 :: "stats \<Rightarrow> entry list \<Rightarrow> patterns \<Rightarrow> string list" where
  "actions_1_to_5 st categories pt =
     (let fees_total = total_sum (high_fees pt);
          fees_count = count (high_fees pt);
          subs_total = total_sum (subscriptions pt);
          spike_days = days (impulse_spikes pt);
          extra = extra_spend (impulse_spikes pt)
      in [if savings_rate st < 1 / 10 then action_automatic_transfer
          else if savings_rate st < 1 / 4 then action_increase_savings
          else action_protect_rate]
         @ (if fees_total > 0 then [action_fees fees_count fees_total] else [])
         @ (if spike_days \<noteq> [] \<and> extra > 0 then [action_spike (hd spike_days) extra] else [])
         @ (if subs_total > 0 then [action_subscriptions subs_total] else [])
         @ (case categories of
              [] \<Rightarrow> []
            | top_cat # rest \<Rightarrow>
                if entry_category top_cat \<noteq> [] then [action_top_category (entry_category top_cat)]
                else []))"

definition recommend_actions_for_next_month ::
  "stats \<Rightarrow> entry list \<Rightarrow> patterns \<Rightarrow> string list" where
  "recommend_actions_for_next_month st categories pt =
     (let actions = actions_1_to_5 st categories pt;
          actions = (if length actions < 3 then actions @ [action_review] else actions)
      in take 5 (dedupe {} [] actions))"

text \<open>A month with one salary and no expense.\<close>

definition income_only :: frame where
  "income_only =
     \<lparr>columns = all_columns,
      rows = [mk_txn (2025, 1, 1) 1000 True (Some ''Salary'') (Some ''salary'')]\<rparr>"

section \<open>Impulse spikes, as the specification words them\<close>







section \<open>Trend Comparator: \<open>compute_category_trends\<close>\<close>

datatype py_error = KeyError | ValueError














section \<open>Trends, as the specification words them\<close>






section \<open>Stats Engine: the net identity and the zero-income case\<close>

lemma py_round_zero: "py_round 0 nd = 0"
  by (simp add: py_round_def round_half_even_def)

text \<open>
  C7. Before rounding, net is total income minus total expense. When the total income is
  0 (in particular when no row is an income row) the returned savings rate is 0.
\<close>

theorem C7_net_identity_and_zero_income:
  "net (stats_exact df) = total_income (stats_exact df) - total_expense (stats_exact df)
   \<and> (total_income (stats_exact df) = 0 \<longrightarrow> savings_rate (compute_basic_stats df) = 0)
   \<and> (filter is_income (rows df) = [] \<longrightarrow> savings_rate (compute_basic_stats df) = 0)"
  by (simp add: stats_exact_def compute_basic_stats_def Let_def py_round_zero amount_sum_def)

theorem C7_witness:
  "filter is_income (rows no_income) = []
   \<and> total_income (stats_exact no_income) = 0
   \<and> net (stats_exact no_income) = - 40
   \<and> savings_rate (compute_basic_stats no_income) = 0"
  using C7_net_identity_and_zero_income [of no_income]
  by (simp add: no_income_def mk_txn_def stats_exact_def Let_def amount_sum_def expenses_def)

section \<open>Pattern Detector: the cashflow flag\<close>

text \<open>
  C8. The cashflow flag is the ordered classifier over the Stats Engine result of the
  same frame: critical when its net is negative, otherwise warning when its savings rate
  is below 0.10, otherwise ok. A negative net gives critical whatever the savings rate.
\<close>

theorem C8_cashflow_flag_ordered:
  "cashflow_flag (detect_patterns df) =
     (if net (compute_basic_stats df) < 0 then ''critical''
      else if savings_rate (compute_basic_stats df) < 1 / 10 then ''warning''
      else ''ok'')
   \<and> (net (compute_basic_stats df) < 0 \<longrightarrow> cashflow_flag (detect_patterns df) = ''critical'')"
  by (simp add: detect_patterns_def Let_def split: prod.splits)

theorem C8_witness:
  "net (compute_basic_stats overspent) < 0
   \<and> cashflow_flag (detect_patterns overspent) = ''critical''"
proof -
  have neg: "net (compute_basic_stats overspent) < 0"
    by code_simp
  with C8_cashflow_flag_ordered [of overspent] show ?thesis
    by simp
qed

section \<open>Category Resolver: existing categories are kept, the first keyword wins\<close>






section \<open>The caller's frame\<close>

text \<open>
  \<open>detect_patterns\<close>, \<open>build_behaviour_profiles\<close> and \<open>compute_category_trends\<close> copy
  their argument in their first statement, \<open>compute_basic_stats\<close> and
  \<open>compute_category_breakdown\<close> only read it. \<open>apply_auto_categories_to_df\<close> copies
  too, and so leaves a frame that has a category column as it was.
\<close>

lemma caller_unchanged_with_category_column:
  "has_column df ''category'' \<Longrightarrow> fst (apply_auto_categories_to_df df) = df"
  by (simp add: apply_auto_categories_to_df_def add_category_column_def Let_def)

text \<open>
  C6. The copy comes after the test for the category column: on a frame without that
  column the caller's frame has one more column after the call.
\<close>

theorem C6_caller_frame_gets_category_column:
  "\<not> has_column no_category_column ''category''
   \<and> columns (fst (apply_auto_categories_to_df no_category_column))
       = columns no_category_column @ [''category'']
   \<and> fst (apply_auto_categories_to_df no_category_column) \<noteq> no_category_column"
  by code_simp

section \<open>Category Breakdown: the entries against the total expense\<close>

lemma whole_cents_Ints: "whole_cents x \<longleftrightarrow> x * 100 \<in> \<int>"
  unfolding whole_cents_def by (metis Ints_of_int Ints_cases floor_of_int)

lemma whole_cents_amount_sum:
  "\<forall>t\<in>set rs. whole_cents (amount t) \<Longrightarrow> whole_cents (amount_sum rs)"
  by (induction rs) (auto simp: whole_cents_Ints amount_sum_def distrib_right)

lemma round_half_even_of_int: "round_half_even (of_int k) = k"
  by (simp add: round_half_even_def)

lemma py_round_whole_cents: "whole_cents x \<Longrightarrow> py_round x 2 = x"
proof -
  assume "whole_cents x"
  then obtain k where k: "x * 100 = of_int k"
    unfolding whole_cents_Ints by (auto elim: Ints_cases)
  have "py_round x 2 = of_int (round_half_even (x * 100)) / 100"
    by (simp add: py_round_def)
  also have "\<dots> = of_int k / 100"
    by (simp only: k round_half_even_of_int)
  also have "\<dots> = x"
    using k by simp
  finally show ?thesis .
qed

lemma amount_sum_by_key:
  assumes "finite K" and "key ` set rs \<subseteq> K"
  shows "(\<Sum>k\<in>K. amount_sum (filter (\<lambda>t. key t = k) rs)) = amount_sum rs"
  using assms(2)
proof (induction rs)
  case Nil
  then show ?case by (simp add: amount_sum_def)
next
  case (Cons t ts)
  have "(\<Sum>k\<in>K. amount_sum (filter (\<lambda>t. key t = k) (t # ts)))
      = (\<Sum>k\<in>K. (if key t = k then amount t else 0) + amount_sum (filter (\<lambda>t. key t = k) ts))"
    by (intro sum.cong) (auto simp: amount_sum_def)
  also have "\<dots> = (\<Sum>k\<in>K. if key t = k then amount t else 0)
      + (\<Sum>k\<in>K. amount_sum (filter (\<lambda>t. key t = k) ts))"
    by (simp add: sum.distrib)
  also have "(\<Sum>k\<in>K. if key t = k then amount t else 0) = amount t"
    using assms(1) Cons.prems by (simp add: sum.delta')
  also have "(\<Sum>k\<in>K. amount_sum (filter (\<lambda>t. key t = k) ts)) = amount_sum ts"
    using Cons by simp
  finally show ?case by (simp add: amount_sum_def)
qed

lemma groupby_sum_keys: "map fst (groupby_sum key rs) = sort (remdups (map key rs))"
  by (simp add: groupby_sum_def comp_def)

lemma groupby_sum_distinct: "distinct (map fst (groupby_sum key rs))"
  by (simp add: groupby_sum_keys)

lemma groupby_sum_sorted: "sorted (map fst (groupby_sum key rs))"
  by (simp add: groupby_sum_keys)

lemma groupby_sum_set:
  "set (groupby_sum key rs) = (\<lambda>k. (k, amount_sum (filter (\<lambda>t. key t = k) rs))) ` key ` set rs"
  by (simp add: groupby_sum_def)

lemma groupby_sum_total: "sum_list (map snd (groupby_sum key rs)) = amount_sum rs"
proof -
  let ?ks = "sort (remdups (map key rs))"
  have "sum_list (map snd (groupby_sum key rs))
      = sum_list (map (\<lambda>k. amount_sum (filter (\<lambda>t. key t = k) rs)) ?ks)"
    by (simp add: groupby_sum_def comp_def)
  also have "\<dots> = (\<Sum>k\<in>set ?ks. amount_sum (filter (\<lambda>t. key t = k) rs))"
    by (rule sum_list_distinct_conv_sum_set) simp
  also have "\<dots> = amount_sum rs"
    by (rule amount_sum_by_key) simp_all
  finally show ?thesis .
qed

lemma sum_list_sort_key_distinct:
  fixes g :: "'a \<Rightarrow> rat"
  assumes "distinct xs"
  shows "sum_list (map g (sort_key h xs)) = sum_list (map g xs)"
proof -
  have "sum_list (map g (sort_key h xs)) = sum g (set (sort_key h xs))"
    using assms by (intro sum_list_distinct_conv_sum_set) simp
  also have "\<dots> = sum_list (map g xs)"
    using assms by (simp add: sum_list_distinct_conv_sum_set)
  finally show ?thesis .
qed

lemma distinct_map_sort_key: "distinct (map f (sort_key h xs)) = distinct (map f xs)"
  by (simp add: distinct_map)

lemma amount_sum_split:
  "amount_sum (filter P rs) + amount_sum (filter (\<lambda>t. \<not> P t) rs) = amount_sum rs"
  by (induction rs) (auto simp: amount_sum_def)

lemma breakdown_with_column:
  "has_column df ''category'' \<Longrightarrow>
   compute_category_breakdown df =
     map (\<lambda>(cat, amount). \<lparr>entry_category = cat, total_spend = py_round amount 2\<rparr>)
       (sort_values_desc (groupby_sum_dropna category (expenses (rows df))))"
  by (simp add: compute_category_breakdown_def sort_values_desc_def groupby_sum_dropna_def
      groupby_sum_def)

lemma filter_category_Some:
  "filter (\<lambda>t. the (category t) = c) (filter (\<lambda>t. category t \<noteq> None) rs)
     = filter (\<lambda>t. category t = Some c) rs"
  by (induction rs) auto

lemma groupby_dropna_set:
  "set (groupby_sum_dropna category rs) =
     {(c, amount_sum (filter (\<lambda>t. category t = Some c) rs)) | c. \<exists>t\<in>set rs. category t = Some c}"
  unfolding groupby_sum_dropna_def groupby_sum_set filter_category_Some
  by (auto simp: image_iff) force

lemma groupby_dropna_total:
  "sum_list (map snd (groupby_sum_dropna category rs))
     = amount_sum (filter (\<lambda>t. category t \<noteq> None) rs)"
  by (simp add: groupby_sum_dropna_def groupby_sum_total)

lemma groupby_dropna_distinct: "distinct (map fst (groupby_sum_dropna key rs))"
  by (simp add: groupby_sum_dropna_def groupby_sum_distinct)

lemma breakdown_facts:
  assumes col: "has_column df ''category''"
    and cents: "\<forall>t\<in>set (rows df). whole_cents (amount t)"
  shows "distinct (map entry_category (compute_category_breakdown df))"
    and "set (map entry_category (compute_category_breakdown df))
          = {c. \<exists>t\<in>set (expenses (rows df)). category t = Some c}"
    and "\<forall>e\<in>set (compute_category_breakdown df).
           total_spend e = amount_sum (filter (\<lambda>t. category t = Some (entry_category e))
                                          (expenses (rows df)))"
    and "sum_list (map total_spend (compute_category_breakdown df))
          = amount_sum (filter (\<lambda>t. category t \<noteq> None) (expenses (rows df)))"
proof -
  let ?exp = "expenses (rows df)"
  let ?G = "groupby_sum_dropna category ?exp"
  let ?mk = "\<lambda>(cat, amount). \<lparr>entry_category = cat, total_spend = py_round amount 2\<rparr>"
  have ccb: "compute_category_breakdown df = map ?mk (sort_values_desc ?G)"
    using col by (rule breakdown_with_column)
  have cents_exp: "\<forall>t\<in>set (filter P ?exp). whole_cents (amount t)" for P
    using cents by (simp add: expenses_def)
  have exact: "py_round v 2 = v" if "(c, v) \<in> set ?G" for c v
  proof -
    from that have "v = amount_sum (filter (\<lambda>t. category t = Some c) ?exp)"
      by (auto simp: groupby_dropna_set)
    then have "whole_cents v"
      using whole_cents_amount_sum [OF cents_exp] by simp
    then show ?thesis
      by (rule py_round_whole_cents)
  qed
  have cats: "map entry_category (compute_category_breakdown df) = map fst (sort_values_desc ?G)"
    by (simp add: ccb comp_def case_prod_beta)
  show "distinct (map entry_category (compute_category_breakdown df))"
    unfolding cats sort_values_desc_def distinct_map_sort_key
    by (rule groupby_dropna_distinct)
  show "set (map entry_category (compute_category_breakdown df))
          = {c. \<exists>t\<in>set ?exp. category t = Some c}"
    unfolding cats sort_values_desc_def
    by (auto simp: groupby_dropna_set image_iff)
  show "\<forall>e\<in>set (compute_category_breakdown df).
           total_spend e = amount_sum (filter (\<lambda>t. category t = Some (entry_category e)) ?exp)"
  proof
    fix e assume "e \<in> set (compute_category_breakdown df)"
    then obtain c v where cv: "(c, v) \<in> set ?G" and e: "e = ?mk (c, v)"
      unfolding ccb sort_values_desc_def by auto
    from cv have "v = amount_sum (filter (\<lambda>t. category t = Some c) ?exp)"
      by (auto simp: groupby_dropna_set)
    with exact [OF cv] e
    show "total_spend e = amount_sum (filter (\<lambda>t. category t = Some (entry_category e)) ?exp)"
      by simp
  qed
  have dG: "distinct ?G"
    using groupby_dropna_distinct [of category ?exp] by (simp add: distinct_map)
  have "sum_list (map total_spend (compute_category_breakdown df))
      = sum_list (map (\<lambda>p. py_round (snd p) 2) (sort_values_desc ?G))"
    by (simp add: ccb comp_def case_prod_beta)
  also have "\<dots> = sum_list (map (\<lambda>p. py_round (snd p) 2) ?G)"
    unfolding sort_values_desc_def using dG by (rule sum_list_sort_key_distinct)
  also have "\<dots> = sum_list (map snd ?G)"
    by (intro arg_cong [where f = sum_list] map_cong refl) (auto intro: exact)
  also have "\<dots> = amount_sum (filter (\<lambda>t. category t \<noteq> None) ?exp)"
    by (rule groupby_dropna_total)
  finally show "sum_list (map total_spend (compute_category_breakdown df))
      = amount_sum (filter (\<lambda>t. category t \<noteq> None) ?exp)" .
qed

lemma total_expense_whole_cents:
  assumes "\<forall>t\<in>set (rows df). whole_cents (amount t)"
  shows "total_expense (compute_basic_stats df) = amount_sum (expenses (rows df))"
proof -
  have "whole_cents (amount_sum (expenses (rows df)))"
    using assms by (intro whole_cents_amount_sum) (simp add: expenses_def)
  then show ?thesis
    by (simp add: compute_basic_stats_def stats_exact_def Let_def py_round_whole_cents)
qed

text \<open>
  C1, as amended. For amounts with at most two decimals, the entries are one per category
  present among the expense rows, each with the sum of its rows, and the entries'
  total_spend together with the spend of the expense rows that have no category make up
  the total_expense of the Stats Engine. Expense rows without a category get no entry.
\<close>

theorem C1_breakdown_partitions_categorised_expenses:
  assumes "\<forall>t\<in>set (rows df). whole_cents (amount t)"
  shows "distinct (map entry_category (compute_category_breakdown df))
    \<and> set (map entry_category (compute_category_breakdown df))
        = {c. \<exists>t\<in>set (expenses (rows df)). row_get df ''category'' category t = Some c}
    \<and> (\<forall>e\<in>set (compute_category_breakdown df).
          total_spend e = amount_sum (filter (\<lambda>t. category t = Some (entry_category e))
                                         (expenses (rows df))))
    \<and> sum_list (map total_spend (compute_category_breakdown df))
        + amount_sum (filter (\<lambda>t. row_get df ''category'' category t = None)
                        (expenses (rows df)))
        = total_expense (compute_basic_stats df)"
proof (cases "has_column df ''category''")
  case True
  then have rg: "row_get df ''category'' category = category"
    by (simp add: row_get_def fun_eq_iff)
  have "amount_sum (filter (\<lambda>t. category t \<noteq> None) (expenses (rows df)))
      + amount_sum (filter (\<lambda>t. category t = None) (expenses (rows df)))
      = amount_sum (expenses (rows df))"
    using amount_sum_split [of "\<lambda>t. category t \<noteq> None" "expenses (rows df)"] by simp
  with breakdown_facts [OF True assms] total_expense_whole_cents [OF assms]
  show ?thesis
    unfolding rg by simp
next
  case False
  then have "compute_category_breakdown df = []"
    and "row_get df ''category'' category = (\<lambda>t. None)"
    by (simp_all add: compute_category_breakdown_def row_get_def fun_eq_iff)
  with total_expense_whole_cents [OF assms] show ?thesis
    by simp
qed

text \<open>
  An expense whose category stays absent after resolution has no entry: the entries sum
  to 0 against a total expense of 75. With a third decimal the rounded entries do not
  add up to the rounded total either.
\<close>

theorem C1_counterexample:
  "compute_category_breakdown (snd (apply_auto_categories_to_df uncategorised)) = []
   \<and> sum_list (map total_spend
        (compute_category_breakdown (snd (apply_auto_categories_to_df uncategorised)))) = 0
   \<and> total_expense (compute_basic_stats (snd (apply_auto_categories_to_df uncategorised))) = 75
   \<and> sum_list (map total_spend (compute_category_breakdown sub_cent)) = 30
   \<and> total_expense (compute_basic_stats sub_cent) = 3001 / 100"
  by code_simp

theorem C1_witness:
  "list_all (\<lambda>t. whole_cents (amount t)) (rows two_categories)
   \<and> map entry_category (compute_category_breakdown two_categories) = [''Housing'', ''Food'']
   \<and> map total_spend (compute_category_breakdown two_categories) = [400, 1775 / 100]
   \<and> amount_sum (filter (\<lambda>t. row_get two_categories ''category'' category t = None)
                   (expenses (rows two_categories))) = 30
   \<and> total_expense (compute_basic_stats two_categories) = 44775 / 100"
proof -
  have cents: "list_all (\<lambda>t. whole_cents (amount t)) (rows two_categories)"
    by code_simp
  then have hyp: "\<forall>t\<in>set (rows two_categories). whole_cents (amount t)"
    by (simp add: list_all_iff)
  have ev: "map entry_category (compute_category_breakdown two_categories) = [''Housing'', ''Food'']"
    "map total_spend (compute_category_breakdown two_categories) = [400, 1775 / 100]"
    "amount_sum (filter (\<lambda>t. row_get two_categories ''category'' category t = None)
                   (expenses (rows two_categories))) = 30"
    by code_simp+
  from C1_breakdown_partitions_categorised_expenses [OF hyp] ev
  have "total_expense (compute_basic_stats two_categories) = 44775 / 100"
    by simp
  with cents ev show ?thesis
    by simp
qed

section \<open>Action Recommender: how many actions come back\<close>

lemma dedupe_distinct_aux:
  "distinct deduped \<Longrightarrow> set deduped = seen \<Longrightarrow> distinct (dedupe seen deduped as)"
  by (induction as arbitrary: seen deduped) auto

lemma dedupe_of_distinct:
  "distinct as \<Longrightarrow> set as \<inter> seen = {} \<Longrightarrow> dedupe seen deduped as = deduped @ as"
  by (induction as arbitrary: seen deduped) auto

lemma hd_actions:
  "hd action_automatic_transfer = CHR ''S''"
  "hd action_increase_savings = CHR ''I''"
  "hd action_protect_rate = CHR ''Y''"
  "hd (action_fees n x) = CHR ''O''"
  "hd (action_spike d x) = CHR ''P''"
  "hd (action_subscriptions x) = CHR ''D''"
  "hd (action_top_category c) = CHR ''C''"
  "hd action_review = CHR ''B''"
  by (simp_all add: action_automatic_transfer_def action_increase_savings_def
      action_protect_rate_def action_fees_def action_spike_def action_subscriptions_def
      action_top_category_def action_review_def)

lemma actions_all_different:
  "distinct (actions_1_to_5 st categories pt @ [action_review])"
proof -
  have "distinct (map hd (actions_1_to_5 st categories pt @ [action_review]))"
    by (simp add: actions_1_to_5_def Let_def hd_actions split: list.split)
  then show ?thesis
    by (simp only: distinct_map)
qed

lemma actions_1_to_5_length:
  "1 \<le> length (actions_1_to_5 st categories pt) \<and> length (actions_1_to_5 st categories pt) \<le> 5"
  by (simp add: actions_1_to_5_def Let_def split: list.split)

text \<open>
  The strings of the different rules differ in their first letter, so the loop drops
  nothing, and at most five strings are built: the result is the list of rules 1 to 5,
  with the one filler when that list has fewer than three entries.
\<close>

lemma recommend_actions_eq:
  "recommend_actions_for_next_month st categories pt =
     (if length (actions_1_to_5 st categories pt) < 3
      then actions_1_to_5 st categories pt @ [action_review]
      else actions_1_to_5 st categories pt)"
proof -
  let ?a = "actions_1_to_5 st categories pt"
  have d: "distinct (?a @ [action_review])"
    by (rule actions_all_different)
  then have d': "distinct ?a"
    by simp
  have "dedupe {} [] (?a @ [action_review]) = ?a @ [action_review]"
    using dedupe_of_distinct [OF d, of "{}" "[]"] by simp
  moreover have "dedupe {} [] ?a = ?a"
    using dedupe_of_distinct [OF d', of "{}" "[]"] by simp
  ultimately show ?thesis
    using actions_1_to_5_length [of st categories pt]
    by (simp add: recommend_actions_for_next_month_def Let_def)
qed

lemma recommend_actions_at_most_five_distinct:
  "length (recommend_actions_for_next_month st categories pt) \<le> 5
   \<and> distinct (recommend_actions_for_next_month st categories pt)"
  using dedupe_distinct_aux [of "[]" "{}"]
  by (simp add: recommend_actions_for_next_month_def Let_def)

lemma recommend_actions_length:
  "length (recommend_actions_for_next_month st categories pt) =
     (if length (actions_1_to_5 st categories pt) = 1 then 2
      else max 3 (length (actions_1_to_5 st categories pt)))"
  using actions_1_to_5_length [of st categories pt]
  by (auto simp: recommend_actions_eq)

text \<open>
  C2. A month with one salary and no expense: the Stats Engine, the Category Breakdown
  and the Pattern Detector give a savings rate of 1, no category and no pattern, so
  only the savings rule fires, the filler is added once, and two actions come back.
\<close>

theorem C2_filler_leaves_two_actions:
  "recommend_actions_for_next_month (compute_basic_stats income_only)
     (compute_category_breakdown income_only) (detect_patterns income_only)
     = [action_protect_rate, action_review]
   \<and> length (recommend_actions_for_next_month (compute_basic_stats income_only)
        (compute_category_breakdown income_only) (detect_patterns income_only)) = 2"
  by code_simp

section \<open>Pattern Detector: impulse spikes\<close>

























section \<open>Trend Comparator: the rows\<close>

























end
